theory Spec2Isabelle
  imports Main "HOL-Library.Sublist"
begin

section \<open>Values shared by the models\<close>

text \<open>
  A \<open>DateField\<close> value is a Python \<open>datetime.date\<close>. Dates are compared and subtracted
  through their proleptic Gregorian ordinal (\<open>date.toordinal()\<close>), so a date is modelled as
  that ordinal. A \<open>TimeField\<close> value is a time of day, modelled as the number of
  microseconds since midnight; a \<open>DateTimeField\<close> value is a point on the clock. A
  \<open>DecimalField(decimal_places=2)\<close> value is modelled as its number of hundredths.
\<close>

type_synonym date = int
type_synonym time_of_day = nat
type_synonym datetime = nat
type_synonym decimal = int

text \<open>
  The ordinal of a calendar date, as \<open>datetime.date(y, m, d).toordinal()\<close> computes it
  (\<open>_is_leap\<close>, \<open>_days_before_year\<close>, \<open>_days_before_month\<close>, \<open>_ymd2ord\<close> of the
  standard library). It is only used to write concrete dates.
\<close>

definition is_leap :: "int \<Rightarrow> bool" where
  "is_leap year = (year mod 4 = 0 \<and> (year mod 100 \<noteq> 0 \<or> year mod 400 = 0))"

definition days_before_year :: "int \<Rightarrow> int" where
  "days_before_year year =
     (let y = year - 1 in y * 365 + y div 4 - y div 100 + y div 400)"

definition days_before_month :: "int \<Rightarrow> nat \<Rightarrow> int" where
  "days_before_month year month =
     [0, 0, 31, 59, 90, 120, 151, 181, 212, 243, 273, 304, 334] ! month
       + (if month > 2 \<and> is_leap year then 1 else 0)"

definition ymd2ord :: "int \<Rightarrow> nat \<Rightarrow> int \<Rightarrow> date" where
  "ymd2ord year month day = days_before_year year + days_before_month year month + day"

text \<open>
  The value of a key in the JSON body of a request, as \<open>request.data.get(key, default)\<close>
  sees it: the key is missing (then the default is taken), its value is \<open>null\<close>
  (Python's \<open>None\<close>), a string, or something else (a number, a boolean, a list or an
  object), kept here as the text that \<open>str()\<close> gives it.
\<close>

datatype json_field = Missing | Json_null | Json_string string | Json_other string

text \<open>
  \<open>django.contrib.auth.models.User\<close>, as far as the views read it: the primary key, the
  flags \<open>is_authenticated\<close> and \<open>is_staff\<close>, the names of the groups, and the reverse side of
  \<open>Employee.user\<close> (\<open>related_name='employee_profile'\<close>): the primary key of the linked
  employee, \<open>None\<close> when no employee is linked (then \<open>hasattr(user, 'employee_profile')\<close>
  is false). The anonymous user is the one whose \<open>is_authenticated\<close> is false.
\<close>

record user =
  user_pk :: nat
  is_authenticated :: bool
  is_staff :: bool
  groups :: "string list"
  employee_profile :: "nat option"

section \<open>Leave requests (models.py, api_views.py, views.py)\<close>

text \<open>
  \<open>class LeaveRequest(models.Model)\<close>, with its primary key; \<open>employee\<close> and
  \<open>approved_by\<close> are foreign keys.
\<close>

record leave_request =
  lr_pk :: nat
  lr_employee :: nat
  lr_leave_type :: string
  lr_start_date :: date
  lr_end_date :: date
  lr_reason :: string
  lr_status :: string
  lr_approved_by :: "nat option"
  lr_approval_date :: "datetime option"
  lr_rejection_reason :: string
  lr_created_at :: datetime
  lr_updated_at :: datetime

text \<open>The property \<open>LeaveRequest.total_days\<close>: \<open>(self.end_date - self.start_date).days + 1\<close>.\<close>

definition total_days :: "leave_request \<Rightarrow> int" where
  "total_days r = (lr_end_date r - lr_start_date r) + 1"

text \<open>\<open>Model.save()\<close> on a leave request: \<open>updated_at\<close> is \<open>auto_now\<close>.\<close>

definition lr_save :: "datetime \<Rightarrow> leave_request \<Rightarrow> leave_request" where
  "lr_save saved_at r = r\<lparr>lr_updated_at := saved_at\<rparr>"

text \<open>
  What \<open>save()\<close> does to the table of leave requests: the \<open>UPDATE ... WHERE id = pk\<close>
  rewrites the row with the primary key of the object and no other row.
\<close>

definition lr_update_row :: "leave_request \<Rightarrow> leave_request list \<Rightarrow> leave_request list" where
  "lr_update_row r table = map (\<lambda>x. if lr_pk x = lr_pk r then r else x) table"

text \<open>
  What an API action answers: \<open>Response(serializer.data)\<close> with the serialised record;
  \<open>Response({'error': msg}, status=HTTP_400_BAD_REQUEST)\<close>; the refusal of the
  permission class \<open>IsAuthenticated\<close>; the \<open>Http404\<close> of \<open>get_object()\<close>; or an
  exception that nothing handles (HTTP 500), with the name of its class.
\<close>

datatype 'a response =
    Response_200 'a
  | Response_400 string
  | Not_authenticated
  | Response_404
  | Response_500 string

text \<open>
  \<open>LeaveRequestViewSet.get_queryset\<close>. \<open>super().get_queryset()\<close> is the whole table
  (\<open>LeaveRequest.objects.select_related(...).all()\<close>), passed here as \<open>queryset\<close>.
\<close>

definition get_queryset :: "leave_request list \<Rightarrow> user \<Rightarrow> leave_request list" where
  "get_queryset queryset u =
     (case employee_profile u of
        Some profile \<Rightarrow> filter (\<lambda>r. lr_employee r = profile) queryset
      | None \<Rightarrow> queryset)"

text \<open>
  \<open>self.get_object()\<close> of the leave request view set: the object with primary key \<open>pk\<close>
  in \<open>self.filter_queryset(self.get_queryset())\<close>, or \<open>Http404\<close> (here \<open>None\<close>).
  \<open>filter_queryset\<close> applies the filter backends of the view set to the query parameters
  of the request; it is library code and taken as a parameter (the identity for a request
  without query parameters).
\<close>

definition get_object ::
  "(leave_request list \<Rightarrow> leave_request list) \<Rightarrow> leave_request list \<Rightarrow> user \<Rightarrow> nat
     \<Rightarrow> leave_request option" where
  "get_object filter_queryset table u pk =
     find (\<lambda>r. lr_pk r = pk) (filter_queryset (get_queryset table u))"

text \<open>
  \<open>LeaveRequestViewSet.approve\<close> and \<open>LeaveRequestViewSet.reject\<close> on the table of leave
  requests, for the actor \<open>u\<close> and the primary key \<open>pk\<close> of the URL. The view set has
  \<open>permission_classes = [IsAuthenticated]\<close>. \<open>now\<close> is what \<open>timezone.now()\<close> returns
  and \<open>saved_at\<close> the clock at \<open>save()\<close>. The result is the response and the table
  afterwards.

  \<open>req_rejection_reason\<close> is \<open>rejection_reason\<close> in the request body. The column
  \<open>rejection_reason\<close> is a \<open>TextField\<close> without \<open>null=True\<close>: saving \<open>None\<close> raises
  \<open>IntegrityError\<close>, and a value that is not a string is stored as its text.
\<close>

definition approve ::
  "(leave_request list \<Rightarrow> leave_request list) \<Rightarrow> leave_request list \<Rightarrow> user \<Rightarrow> nat
     \<Rightarrow> datetime \<Rightarrow> datetime \<Rightarrow> leave_request response \<times> leave_request list" where
  "approve filter_queryset table u pk now saved_at =
     (if \<not> is_authenticated u then (Not_authenticated, table)
      else
        (case get_object filter_queryset table u pk of
           None \<Rightarrow> (Response_404, table)
         | Some leave_request \<Rightarrow>
             if lr_status leave_request \<noteq> ''pending''
             then (Response_400 ''Only pending requests can be approved'', table)
             else
               let r = lr_save saved_at
                         (leave_request\<lparr>lr_status := ''approved'',
                                        lr_approved_by := Some (user_pk u),
                                        lr_approval_date := Some now\<rparr>)
               in (Response_200 r, lr_update_row r table)))"

definition reject ::
  "(leave_request list \<Rightarrow> leave_request list) \<Rightarrow> leave_request list \<Rightarrow> user \<Rightarrow> nat
     \<Rightarrow> json_field \<Rightarrow> datetime \<Rightarrow> datetime \<Rightarrow> leave_request response \<times> leave_request list" where
  "reject filter_queryset table u pk req_rejection_reason now saved_at =
     (if \<not> is_authenticated u then (Not_authenticated, table)
      else
        (case get_object filter_queryset table u pk of
           None \<Rightarrow> (Response_404, table)
         | Some leave_request \<Rightarrow>
             if lr_status leave_request \<noteq> ''pending''
             then (Response_400 ''Only pending requests can be rejected'', table)
             else
               (case (case req_rejection_reason of
                        Missing \<Rightarrow> Some []
                      | Json_null \<Rightarrow> None
                      | Json_string t \<Rightarrow> Some t
                      | Json_other t \<Rightarrow> Some t) of
                  None \<Rightarrow> (Response_500 ''IntegrityError'', table)
                | Some rejection_reason \<Rightarrow>
                    let r = lr_save saved_at
                              (leave_request\<lparr>lr_status := ''rejected'',
                                             lr_approved_by := Some (user_pk u),
                                             lr_approval_date := Some now,
                                             lr_rejection_reason := rejection_reason\<rparr>)
                    in (Response_200 r, lr_update_row r table))))"

text \<open>
  The page views \<open>leave_request_approve\<close> and \<open>leave_request_reject\<close> of views.py, for a
  POST. \<open>@login_required\<close> sends an anonymous visitor to the login page;
  \<open>get_object_or_404(LeaveRequest, pk=pk)\<close> looks the primary key up in the whole table.
  Otherwise both redirect to the list; what differs is the flashed message
  (\<open>messages.success\<close> or \<open>messages.error\<close>). \<open>post_rejection_reason\<close> is
  \<open>rejection_reason\<close> in the form data, a string when present.
\<close>

datatype flash = Flash_success string | Flash_error string

datatype page_result = Redirect_to_list flash | Redirect_to_login | Http404

definition leave_request_approve ::
  "leave_request list \<Rightarrow> user \<Rightarrow> nat \<Rightarrow> datetime \<Rightarrow> datetime
     \<Rightarrow> page_result \<times> leave_request list" where
  "leave_request_approve table u pk now saved_at =
     (if \<not> is_authenticated u then (Redirect_to_login, table)
      else
        (case find (\<lambda>r. lr_pk r = pk) table of
           None \<Rightarrow> (Http404, table)
         | Some leave_request \<Rightarrow>
             if lr_status leave_request = ''pending''
             then (Redirect_to_list (Flash_success ''Leave request approved successfully!''),
                   lr_update_row
                     (lr_save saved_at
                        (leave_request\<lparr>lr_status := ''approved'',
                                       lr_approved_by := Some (user_pk u),
                                       lr_approval_date := Some now\<rparr>)) table)
             else (Redirect_to_list (Flash_error ''Only pending requests can be approved.''),
                   table)))"

definition leave_request_reject ::
  "leave_request list \<Rightarrow> user \<Rightarrow> nat \<Rightarrow> string option \<Rightarrow> datetime \<Rightarrow> datetime
     \<Rightarrow> page_result \<times> leave_request list" where
  "leave_request_reject table u pk post_rejection_reason now saved_at =
     (if \<not> is_authenticated u then (Redirect_to_login, table)
      else
        (case find (\<lambda>r. lr_pk r = pk) table of
           None \<Rightarrow> (Http404, table)
         | Some leave_request \<Rightarrow>
             if lr_status leave_request = ''pending''
             then (Redirect_to_list (Flash_success ''Leave request rejected.''),
                   lr_update_row
                     (lr_save saved_at
                        (leave_request\<lparr>lr_status := ''rejected'',
                                       lr_approved_by := Some (user_pk u),
                                       lr_approval_date := Some now,
                                       lr_rejection_reason :=
                                         (case post_rejection_reason of
                                            None \<Rightarrow> [] | Some t \<Rightarrow> t)\<rparr>)) table)
             else (Redirect_to_list (Flash_error ''Only pending requests can be rejected.''),
                   table)))"

text \<open>Whether an action answered with success.\<close>

fun is_ok :: "'a response \<Rightarrow> bool" where
  "is_ok (Response_200 _) = True"
| "is_ok _ = False"

fun is_success :: "page_result \<Rightarrow> bool" where
  "is_success (Redirect_to_list (Flash_success _)) = True"
| "is_success _ = False"

section \<open>Permissions (permissions.py)\<close>

definition SAFE_METHODS :: "string list" where
  "SAFE_METHODS = [''GET'', ''HEAD'', ''OPTIONS'']"

text \<open>
  \<open>IsHROrReadOnly.has_permission\<close>: reading needs an authenticated user, writing needs an
  authenticated user who is staff or a member of the group \<open>HR\<close>.
\<close>

definition IsHROrReadOnly_has_permission :: "string \<Rightarrow> user \<Rightarrow> bool" where
  "IsHROrReadOnly_has_permission method u =
     (if method \<in> set SAFE_METHODS then is_authenticated u
      else is_authenticated u \<and> (is_staff u \<or> ''HR'' \<in> set (groups u)))"

section \<open>Employees (models.py, serializers.py, forms.py, api_views.py)\<close>

text \<open>\<open>class Position\<close> and \<open>class Employee\<close>, with the fields the operations below touch.\<close>

record position =
  pos_title :: string
  min_salary :: "decimal option"
  max_salary :: "decimal option"

record employee =
  emp_pk :: nat
  emp_employee_id :: string
  emp_email :: string
  emp_position :: position
  emp_status :: string
  emp_date_joined :: date
  emp_date_left :: "date option"
  emp_salary :: "decimal option"
  emp_notes :: string

text \<open>
  The validated \<open>data\<close> of \<open>EmployeeCreateUpdateSerializer\<close> and the \<open>cleaned_data\<close> of
  \<open>EmployeeForm\<close>: a dictionary, so every key may be absent (\<open>data.get(key)\<close> is then
  \<open>None\<close>).
\<close>

record employee_data =
  d_employee_id :: "string option"
  d_email :: "string option"
  d_date_joined :: "date option"
  d_date_left :: "date option"
  d_salary :: "decimal option"
  d_position :: "position option"

text \<open>
  The validation errors the serializers and forms raise, one constructor per message:
  \<^item> \<open>Employee_id_exists\<close>: "An employee with this ID already exists."
  \<^item> \<open>Email_exists\<close>: "An employee with this email already exists."
  \<^item> \<open>Date_left_before_date_joined\<close>: "Date left cannot be before date joined."
  \<^item> \<open>Salary_below_minimum m\<close>: "Salary cannot be less than position minimum: m"
  \<^item> \<open>Salary_above_maximum m\<close>: "Salary cannot exceed position maximum: m"
  \<^item> \<open>Check_out_before_check_in\<close>: "Check-out time cannot be before check-in time."

  \<open>raise ValidationError(message)\<close> carries a list with that one message.
\<close>

datatype validation_error =
    Employee_id_exists
  | Email_exists
  | Date_left_before_date_joined
  | Salary_below_minimum decimal
  | Salary_above_maximum decimal
  | Check_out_before_check_in

text \<open>
  \<open>EmployeeCreateUpdateSerializer.validate_email\<close> and \<open>validate_employee_id\<close>, on the
  table of stored employees:
  \<open>Employee.objects.filter(email=value).exclude(pk=instance.pk if instance else None).exists()\<close>.
  Excluding the primary key \<open>None\<close> excludes no row.
\<close>

definition validate_email ::
  "employee list \<Rightarrow> employee option \<Rightarrow> string \<Rightarrow> validation_error list + string" where
  "validate_email employees instance v =
     (if filter (\<lambda>e. case instance of None \<Rightarrow> True | Some i \<Rightarrow> emp_pk e \<noteq> emp_pk i)
           (filter (\<lambda>e. emp_email e = v) employees) \<noteq> []
      then Inl [Email_exists] else Inr v)"

definition validate_employee_id ::
  "employee list \<Rightarrow> employee option \<Rightarrow> string \<Rightarrow> validation_error list + string" where
  "validate_employee_id employees instance v =
     (if filter (\<lambda>e. case instance of None \<Rightarrow> True | Some i \<Rightarrow> emp_pk e \<noteq> emp_pk i)
           (filter (\<lambda>e. emp_employee_id e = v) employees) \<noteq> []
      then Inl [Employee_id_exists] else Inr v)"

text \<open>
  \<open>EmployeeCreateUpdateSerializer.validate\<close>; \<open>instance\<close> is \<open>self.instance\<close>. The tests
  \<open>if data.get('salary')\<close>, \<open>position.min_salary and ...\<close> and
  \<open>position.max_salary and ...\<close> are truth tests: a \<open>Decimal\<close> is false when it is
  \<open>None\<close> and also when it is zero. A date and a model instance are false only when
  \<open>None\<close>.
\<close>

definition EmployeeCreateUpdateSerializer_validate ::
  "employee_data \<Rightarrow> employee option \<Rightarrow> validation_error list + employee_data" where
  "EmployeeCreateUpdateSerializer_validate data instance =
     (if (case d_date_left data of
            None \<Rightarrow> False
          | Some date_left \<Rightarrow>
              (case d_date_joined data of
                 None \<Rightarrow> False
               | Some date_joined \<Rightarrow> date_left < date_joined))
      then Inl [Date_left_before_date_joined]
      else
        (case d_salary data of
           None \<Rightarrow> Inr data
         | Some salary \<Rightarrow>
             if salary = 0 then Inr data
             else
               (case (case d_position data of
                        Some p \<Rightarrow> Some p
                      | None \<Rightarrow> map_option emp_position instance) of
                  None \<Rightarrow> Inr data
                | Some position \<Rightarrow>
                    let max_check =
                      (case max_salary position of
                         None \<Rightarrow> Inr data
                       | Some mx \<Rightarrow>
                           if mx \<noteq> 0 \<and> salary > mx
                           then Inl [Salary_above_maximum mx] else Inr data)
                    in (case min_salary position of
                          None \<Rightarrow> max_check
                        | Some mn \<Rightarrow>
                            if mn \<noteq> 0 \<and> salary < mn
                            then Inl [Salary_below_minimum mn] else max_check))))"

text \<open>
  How the serializer runs these validators (\<open>Serializer.run_validation\<close> of the REST
  framework, which \<open>is_valid()\<close> calls): every field that the data holds is validated on
  its own, \<open>validate_<field>\<close> included, in the order of the model's fields, and the
  errors of all fields are collected; if there is any, they are raised together and
  \<open>validate\<close> is not called. Otherwise \<open>validate\<close> runs on the validated data. The
  data is taken to pass the other checks of its fields (types, required keys, choices).
  The two fields are unique in the model, so the framework also gives each a uniqueness
  validator with the same test, which runs before \<open>validate_<field>\<close>; a clash is one
  error of the field either way.
\<close>

definition EmployeeCreateUpdateSerializer_run_validation ::
  "employee list \<Rightarrow> employee option \<Rightarrow> employee_data
     \<Rightarrow> validation_error list + employee_data" where
  "EmployeeCreateUpdateSerializer_run_validation employees instance data =
     (let errors =
            (case d_employee_id data of
               None \<Rightarrow> []
             | Some v \<Rightarrow>
                 (case validate_employee_id employees instance v of
                    Inl errs \<Rightarrow> errs | Inr _ \<Rightarrow> []))
          @ (case d_email data of
               None \<Rightarrow> []
             | Some v \<Rightarrow>
                 (case validate_email employees instance v of
                    Inl errs \<Rightarrow> errs | Inr _ \<Rightarrow> []))
      in if errors \<noteq> [] then Inl errors
         else EmployeeCreateUpdateSerializer_validate data instance)"

text \<open>\<open>EmployeeForm.clean\<close>: the date rule only; the form has no salary rule.\<close>

definition EmployeeForm_clean :: "employee_data \<Rightarrow> validation_error list + employee_data" where
  "EmployeeForm_clean cleaned_data =
     (if (case d_date_left cleaned_data of
            None \<Rightarrow> False
          | Some date_left \<Rightarrow>
              (case d_date_joined cleaned_data of
                 None \<Rightarrow> False
               | Some date_joined \<Rightarrow> date_left < date_joined))
      then Inl [Date_left_before_date_joined]
      else Inr cleaned_data)"

text \<open>
  The attribute \<open>employee.date_left\<close> of the object in memory. Loaded from the table it
  is a date or \<open>None\<close>; \<open>terminate\<close> assigns it the value of the request as it comes:
  a string, or another JSON value (kept as its text).
\<close>

datatype date_attr = Date_value date | None_value | Str_value string | Other_value string

text \<open>
  The property \<open>Employee.years_of_service\<close>, from \<open>date_joined\<close>, the attribute
  \<open>date_left\<close> and today's date: \<open>(end_date - self.date_joined).days // 365\<close> with
  \<open>end_date = self.date_left if self.date_left else timezone.now().date()\<close>. Subtracting
  a date from anything that is not a date raises \<open>TypeError\<close>; the empty string is false.
\<close>

fun years_of_service :: "date \<Rightarrow> date_attr \<Rightarrow> date \<Rightarrow> string + int" where
  "years_of_service date_joined (Date_value d) today = Inr ((d - date_joined) div 365)"
| "years_of_service date_joined None_value today = Inr ((today - date_joined) div 365)"
| "years_of_service date_joined (Str_value t) today =
     (if t = [] then Inr ((today - date_joined) div 365) else Inl ''TypeError'')"
| "years_of_service date_joined (Other_value t) today = Inl ''TypeError''"

text \<open>
  What \<open>save()\<close> stores for the attribute (\<open>DateField.to_python\<close>): a date or \<open>None\<close>
  as it is, a string as the date it parses to, or \<open>ValidationError\<close> when it does not
  parse; any other value raises \<open>TypeError\<close>. \<open>parse_date\<close> is the parser of the
  framework, a parameter.
\<close>

fun DateField_to_python :: "(string \<Rightarrow> date option) \<Rightarrow> date_attr \<Rightarrow> string + date option" where
  "DateField_to_python parse_date (Date_value d) = Inr (Some d)"
| "DateField_to_python parse_date None_value = Inr None"
| "DateField_to_python parse_date (Str_value t) =
     (case parse_date t of None \<Rightarrow> Inl ''ValidationError'' | Some d \<Rightarrow> Inr (Some d))"
| "DateField_to_python parse_date (Other_value t) = Inl ''TypeError''"

text \<open>
  \<open>EmployeeViewSet.terminate\<close>, from the employee that \<open>self.get_object()\<close> resolved
  (the view set lists every employee). \<open>req_date_left\<close> and \<open>req_reason\<close> are
  \<open>date_left\<close> and \<open>reason\<close> in the request body, \<open>today\<close> is
  \<open>timezone.now().date()\<close>, and \<open>str_date\<close> gives the text that the f-string puts in
  for a date. \<open>employee.save()\<close> raises when the attribute cannot be stored, and nothing
  is written. After the save, \<open>Response(serializer.data)\<close> serialises the object in
  memory with \<open>EmployeeDetailSerializer\<close>, whose field \<open>years_of_service\<close> reads the
  property; an exception there comes after the row is written. The result is the response
  and the employee as stored.
\<close>

definition terminate ::
  "(string \<Rightarrow> date option) \<Rightarrow> (date \<Rightarrow> string) \<Rightarrow> employee \<Rightarrow> json_field \<Rightarrow> json_field
     \<Rightarrow> date \<Rightarrow> employee response \<times> employee" where
  "terminate parse_date str_date e req_date_left req_reason today =
     (let date_left =
            (case req_date_left of
               Missing \<Rightarrow> Date_value today
             | Json_null \<Rightarrow> None_value
             | Json_string t \<Rightarrow> Str_value t
             | Json_other t \<Rightarrow> Other_value t);
          reason =
            (case req_reason of
               Missing \<Rightarrow> []
             | Json_null \<Rightarrow> ''None''
             | Json_string t \<Rightarrow> t
             | Json_other t \<Rightarrow> t);
          notes = emp_notes e @ [CHR 0x0A, CHR 0x0A] @ ''Termination Date: ''
                    @ (case date_left of
                         Date_value d \<Rightarrow> str_date d
                       | None_value \<Rightarrow> ''None''
                       | Str_value t \<Rightarrow> t
                       | Other_value t \<Rightarrow> t)
                    @ [CHR 0x0A] @ ''Reason: '' @ reason
      in case DateField_to_python parse_date date_left of
           Inl exc \<Rightarrow> (Response_500 exc, e)
         | Inr stored_date_left \<Rightarrow>
             let e' = e\<lparr>emp_status := ''terminated'',
                        emp_date_left := stored_date_left,
                        emp_notes := notes\<rparr>
             in (case years_of_service (emp_date_joined e) date_left today of
                   Inl exc \<Rightarrow> (Response_500 exc, e')
                 | Inr _ \<Rightarrow> (Response_200 e', e')))"

section \<open>Attendance (models.py, serializers.py, forms.py, api_views.py)\<close>

text \<open>
  \<open>class Attendance\<close>, without its two timestamps; \<open>employee\<close> is a foreign key.
  \<open>Meta.unique_together = ['employee', 'date']\<close>.
\<close>

record attendance =
  att_employee :: nat
  att_date :: date
  att_check_in :: "time_of_day option"
  att_check_out :: "time_of_day option"
  att_status :: string
  att_notes :: string

text \<open>The validated \<open>data\<close> of \<open>AttendanceSerializer\<close> and the \<open>cleaned_data\<close> of \<open>AttendanceForm\<close>.\<close>

record attendance_data =
  a_employee :: "nat option"
  a_date :: "date option"
  a_check_in :: "time_of_day option"
  a_check_out :: "time_of_day option"
  a_status :: "string option"

text \<open>\<open>AttendanceSerializer.validate\<close>; a \<open>datetime.time\<close> is false only when \<open>None\<close>.\<close>

definition AttendanceSerializer_validate ::
  "attendance_data \<Rightarrow> validation_error list + attendance_data" where
  "AttendanceSerializer_validate data =
     (if (case a_check_out data of
            None \<Rightarrow> False
          | Some check_out \<Rightarrow>
              (case a_check_in data of
                 None \<Rightarrow> False
               | Some check_in \<Rightarrow> check_out < check_in))
      then Inl [Check_out_before_check_in]
      else Inr data)"

text \<open>
  \<open>class AttendanceForm(forms.ModelForm)\<close> has a \<open>Meta\<close> and nothing else, so its
  \<open>clean\<close> is the inherited one, which returns \<open>cleaned_data\<close> as it is.
\<close>

definition AttendanceForm_clean ::
  "attendance_data \<Rightarrow> validation_error list + attendance_data" where
  "AttendanceForm_clean cleaned_data = Inr cleaned_data"

text \<open>What the database layer raises inside \<open>update_or_create\<close>.\<close>

datatype db_error = IntegrityError | MultipleObjectsReturned

text \<open>
  \<open>Attendance.objects.update_or_create(employee_id=emp_id, date=date,
  defaults={'status': status_value})\<close> on the attendance table, with \<open>employees\<close> the
  primary keys of the stored employees. The rows with that employee and date are looked
  up: one row is updated with the defaults and saved; no row means a new row is inserted,
  which the foreign key refuses when \<open>emp_id\<close> is not a stored employee; several rows
  raise. Each call commits on its own. The result is the attendance object and the table.
\<close>

definition update_or_create ::
  "attendance list \<Rightarrow> nat list \<Rightarrow> nat \<Rightarrow> date \<Rightarrow> string
     \<Rightarrow> db_error + (attendance \<times> attendance list)" where
  "update_or_create table employees emp_id d status_value =
     (case filter (\<lambda>a. att_employee a = emp_id \<and> att_date a = d) table of
        [] \<Rightarrow>
          if emp_id \<in> set employees
          then (let a = \<lparr>att_employee = emp_id, att_date = d, att_check_in = None,
                          att_check_out = None, att_status = status_value, att_notes = []\<rparr>
                in Inr (a, table @ [a]))
          else Inl IntegrityError
      | [a] \<Rightarrow>
          Inr (a\<lparr>att_status := status_value\<rparr>,
               map (\<lambda>x. if att_employee x = emp_id \<and> att_date x = d
                         then x\<lparr>att_status := status_value\<rparr> else x) table)
      | _ \<Rightarrow> Inl MultipleObjectsReturned)"

text \<open>
  The loop of \<open>AttendanceViewSet.bulk_mark\<close>: \<open>for emp_id in employee_ids\<close>, appending
  to \<open>attendance_records\<close>. An exception leaves the loop; the table then holds what the
  earlier iterations wrote.
\<close>

fun bulk_mark_loop ::
  "attendance list \<Rightarrow> nat list \<Rightarrow> date \<Rightarrow> string \<Rightarrow> nat list \<Rightarrow> attendance list
     \<Rightarrow> (db_error + attendance list) \<times> attendance list" where
  "bulk_mark_loop table employees d status_value [] attendance_records =
     (Inr attendance_records, table)"
| "bulk_mark_loop table employees d status_value (emp_id # employee_ids) attendance_records =
     (case update_or_create table employees emp_id d status_value of
        Inl err \<Rightarrow> (Inl err, table)
      | Inr (a, table') \<Rightarrow>
          bulk_mark_loop table' employees d status_value employee_ids
            (attendance_records @ [a]))"

text \<open>
  The request body of \<open>bulk_mark\<close>: \<open>date\<close> (\<open>None\<close> when absent or empty),
  \<open>employee_ids\<close> (the empty list when absent) and \<open>status\<close> (\<open>None\<close> when absent).
\<close>

record bulk_mark_request =
  bm_date :: "date option"
  bm_employee_ids :: "nat list"
  bm_status :: "string option"

datatype bulk_mark_result =
    Created "attendance list"
  | Bad_request string
  | Raised db_error

text \<open>\<open>AttendanceViewSet.bulk_mark\<close>: the outcome and the attendance table afterwards.\<close>

definition bulk_mark ::
  "attendance list \<Rightarrow> nat list \<Rightarrow> bulk_mark_request \<Rightarrow> bulk_mark_result \<times> attendance list" where
  "bulk_mark table employees request =
     (let status_value = (case bm_status request of None \<Rightarrow> ''present'' | Some s \<Rightarrow> s)
      in case bm_date request of
           None \<Rightarrow> (Bad_request ''Date and employee_ids are required'', table)
         | Some d \<Rightarrow>
             if bm_employee_ids request = []
             then (Bad_request ''Date and employee_ids are required'', table)
             else (case bulk_mark_loop table employees d status_value
                          (bm_employee_ids request) [] of
                     (Inl err, table') \<Rightarrow> (Raised err, table')
                   | (Inr attendance_records, table') \<Rightarrow>
                       (Created attendance_records, table')))"

text \<open>A sequence of \<open>bulk_mark\<close> calls, each on the table the previous one left.\<close>

fun bulk_marks :: "attendance list \<Rightarrow> nat list \<Rightarrow> bulk_mark_request list \<Rightarrow> attendance list" where
  "bulk_marks table employees [] = table"
| "bulk_marks table employees (request # requests) =
     bulk_marks (snd (bulk_mark table employees request)) employees requests"

text \<open>The uniqueness constraint of the table: no two rows with the same employee and date.\<close>

definition unique_together :: "attendance list \<Rightarrow> bool" where
  "unique_together table = distinct (map (\<lambda>a. (att_employee a, att_date a)) table)"

section \<open>Example values\<close>

definition alice :: user where
  "alice = \<lparr>user_pk = 7, is_authenticated = True, is_staff = False, groups = [],
     employee_profile = None\<rparr>"

definition leave_jan :: leave_request where
  "leave_jan = \<lparr>lr_pk = 5, lr_employee = 1, lr_leave_type = ''annual'',
     lr_start_date = ymd2ord 2024 1 1, lr_end_date = ymd2ord 2024 1 5,
     lr_reason = ''trip'', lr_status = ''pending'', lr_approved_by = None,
     lr_approval_date = None, lr_rejection_reason = '''',
     lr_created_at = 10, lr_updated_at = 10\<rparr>"

definition leave_approved :: leave_request where
  "leave_approved = leave_jan\<lparr>lr_status := ''approved'', lr_approved_by := Some 3,
     lr_approval_date := Some 15, lr_updated_at := 15\<rparr>"

definition hr_bob :: user where
  "hr_bob = \<lparr>user_pk = 3, is_authenticated = True, is_staff = True, groups = [''HR''],
     employee_profile = Some 2\<rparr>"

definition carol :: user where
  "carol = \<lparr>user_pk = 8, is_authenticated = True, is_staff = False, groups = [],
     employee_profile = Some 1\<rparr>"

definition leave_feb :: leave_request where
  "leave_feb = leave_jan\<lparr>lr_pk := 6, lr_employee := 2, lr_leave_type := ''sick''\<rparr>"

definition engineer :: position where
  "engineer = \<lparr>pos_title = ''Engineer'', min_salary = Some 100000, max_salary = Some 900000\<rparr>"

definition emp001 :: employee where
  "emp001 = \<lparr>emp_pk = 1, emp_employee_id = ''EMP001'', emp_email = ''emp001@example.com'',
     emp_position = engineer,
     emp_status = ''active'', emp_date_joined = ymd2ord 2022 1 1, emp_date_left = None,
     emp_salary = None, emp_notes = ''hired''\<rparr>"



definition zero_salary :: employee_data where
  "zero_salary = \<lparr>d_employee_id = Some ''EMP002'', d_email = Some ''emp002@example.com'',
     d_date_joined = Some (ymd2ord 2022 1 1), d_date_left = None,
     d_salary = Some 0, d_position = Some engineer\<rparr>"

definition negative_salary :: employee_data where
  "negative_salary = \<lparr>d_employee_id = Some ''EMP002'', d_email = Some ''emp002@example.com'',
     d_date_joined = Some (ymd2ord 2022 1 1), d_date_left = None,
     d_salary = Some (- 500),
     d_position = Some \<lparr>pos_title = ''Volunteer'', min_salary = Some 0, max_salary = None\<rparr>\<rparr>"

definition early_check_out :: attendance_data where
  "early_check_out = \<lparr>a_employee = Some 1, a_date = Some (ymd2ord 2024 1 1),
     a_check_in = Some 61200000000, a_check_out = Some 32400000000,
     a_status = Some ''present''\<rparr>"

definition dave :: user where
  "dave = \<lparr>user_pk = 9, is_authenticated = True, is_staff = False, groups = [],
     employee_profile = Some 2\<rparr>"



definition date_left_patch :: employee_data where
  "date_left_patch = \<lparr>d_employee_id = None, d_email = None, d_date_joined = None,
     d_date_left = Some (ymd2ord 2021 1 1), d_salary = None, d_position = None\<rparr>"

definition parse_2024_06_01 :: "string \<Rightarrow> date option" where
  "parse_2024_06_01 t = (if t = ''2024-06-01'' then Some (ymd2ord 2024 6 1) else None)"

section \<open>Leave request transitions\<close>

lemma ymd2ord_2024_01: "ymd2ord 2024 (Suc 0) d = 738885 + d"
  by (simp add: ymd2ord_def days_before_year_def days_before_month_def is_leap_def)

text \<open>
  C10. For a leave request whose start date is not after its end date, \<open>total_days\<close> is the
  number of days from the start date to the end date plus one, so both end points count
  (it is the number of dates in the closed interval, and at least one). It is a function
  of the two stored dates alone: it is recomputed from them after either is changed, and
  two requests with the same dates have the same \<open>total_days\<close>. From 2024-01-01 to
  2024-01-05 it is 5.
\<close>

theorem total_days_inclusive:
  "lr_start_date r \<le> lr_end_date r \<longrightarrow>
     total_days r = (lr_end_date r - lr_start_date r) + 1
     \<and> total_days r \<ge> 1
     \<and> total_days r = int (card {lr_start_date r .. lr_end_date r})
     \<and> total_days (r\<lparr>lr_start_date := s\<rparr>) = (lr_end_date r - s) + 1
     \<and> total_days (r\<lparr>lr_end_date := e\<rparr>) = (e - lr_start_date r) + 1
     \<and> (\<forall>r'. lr_start_date r' = lr_start_date r \<and> lr_end_date r' = lr_end_date r
            \<longrightarrow> total_days r' = total_days r)
     \<and> total_days (r\<lparr>lr_start_date := ymd2ord 2024 1 1, lr_end_date := ymd2ord 2024 1 5\<rparr>) = 5"
  by (simp add: total_days_def ymd2ord_2024_01)

theorem total_days_inclusive_witness:
  "lr_start_date leave_jan \<le> lr_end_date leave_jan \<and> total_days leave_jan = 5
     \<and> total_days leave_jan = int (card {lr_start_date leave_jan .. lr_end_date leave_jan})"
proof -
  have h: "lr_start_date leave_jan \<le> lr_end_date leave_jan"
    by (simp add: leave_jan_def ymd2ord_2024_01)
  from total_days_inclusive [of leave_jan] h
  have "total_days leave_jan = (lr_end_date leave_jan - lr_start_date leave_jan) + 1"
    and "total_days leave_jan = int (card {lr_start_date leave_jan .. lr_end_date leave_jan})"
    by blast+
  then show ?thesis
    using h by (simp add: leave_jan_def ymd2ord_2024_01)
qed

text \<open>
  C1, as stated, fails: the API looks the request up among those the actor is shown, so
  for an actor whose employee record is not the request's employee a pending request is
  not found and nothing is approved; and a rejection whose reason is \<open>null\<close> raises on a
  pending request that the actor is shown.
\<close>

theorem approve_reject_only_from_pending_counterexample:
  "lr_status leave_jan = ''pending''
   \<and> is_authenticated dave
   \<and> approve (\<lambda>q. q) [leave_jan] dave 5 20 21 = (Response_404, [leave_jan])
   \<and> is_authenticated carol
   \<and> get_object (\<lambda>q. q) [leave_jan] carol 5 = Some leave_jan
   \<and> reject (\<lambda>q. q) [leave_jan] carol 5 Json_null 20 21
       = (Response_500 ''IntegrityError'', [leave_jan])"
  by (simp add: approve_def reject_def get_object_def get_queryset_def
        leave_jan_def dave_def carol_def)

text \<open>
  C1, amended. For an authenticated actor and a leave request that the lookup of the
  operation resolves for that actor (the API actions look the key up among the requests
  the actor is shown, the page views in the whole table): \<open>approve\<close> succeeds exactly
  when the status was \<open>pending\<close>, and then the row of the request becomes the old record
  with status \<open>approved\<close>, the actor as \<open>approved_by\<close> and the current time as
  \<open>approval_date\<close> (and the save time as \<open>updated_at\<close>); \<open>reject\<close> with a reason that
  is a text or is left out succeeds exactly when the status was \<open>pending\<close>, and then
  the row has status \<open>rejected\<close>, the actor, the time and the given reason. When the
  status is not \<open>pending\<close>, both answer with the error (HTTP 400, or the flashed error
  message of the page views) and the table is as before. When the lookup does not resolve
  the key, both answer not-found and the table is as before.
\<close>

theorem approve_reject_only_from_pending:
  "is_authenticated a \<longrightarrow>
   (get_object fq table a pk = Some r \<longrightarrow>
      (is_ok (fst (approve fq table a pk now t)) \<longleftrightarrow> lr_status r = ''pending'')
      \<and> (is_ok (fst (reject fq table a pk (Json_string why) now t))
            \<longleftrightarrow> lr_status r = ''pending'')
      \<and> (is_ok (fst (reject fq table a pk Missing now t)) \<longleftrightarrow> lr_status r = ''pending'')
      \<and> (lr_status r = ''pending'' \<longrightarrow>
           approve fq table a pk now t
             = (Response_200
                  (r\<lparr>lr_status := ''approved'', lr_approved_by := Some (user_pk a),
                     lr_approval_date := Some now, lr_updated_at := t\<rparr>),
                lr_update_row
                  (r\<lparr>lr_status := ''approved'', lr_approved_by := Some (user_pk a),
                     lr_approval_date := Some now, lr_updated_at := t\<rparr>) table)
           \<and> reject fq table a pk (Json_string why) now t
             = (Response_200
                  (r\<lparr>lr_status := ''rejected'', lr_approved_by := Some (user_pk a),
                     lr_approval_date := Some now, lr_rejection_reason := why,
                     lr_updated_at := t\<rparr>),
                lr_update_row
                  (r\<lparr>lr_status := ''rejected'', lr_approved_by := Some (user_pk a),
                     lr_approval_date := Some now, lr_rejection_reason := why,
                     lr_updated_at := t\<rparr>) table)
           \<and> reject fq table a pk Missing now t
             = (Response_200
                  (r\<lparr>lr_status := ''rejected'', lr_approved_by := Some (user_pk a),
                     lr_approval_date := Some now, lr_rejection_reason := [],
                     lr_updated_at := t\<rparr>),
                lr_update_row
                  (r\<lparr>lr_status := ''rejected'', lr_approved_by := Some (user_pk a),
                     lr_approval_date := Some now, lr_rejection_reason := [],
                     lr_updated_at := t\<rparr>) table))
      \<and> (lr_status r \<noteq> ''pending'' \<longrightarrow>
           approve fq table a pk now t
             = (Response_400 ''Only pending requests can be approved'', table)
           \<and> reject fq table a pk reason now t
             = (Response_400 ''Only pending requests can be rejected'', table)))
   \<and> (get_object fq table a pk = None \<longrightarrow>
        approve fq table a pk now t = (Response_404, table)
        \<and> reject fq table a pk reason now t = (Response_404, table))
   \<and> (find (\<lambda>x. lr_pk x = pk) table = Some r \<longrightarrow>
        (is_success (fst (leave_request_approve table a pk now t))
           \<longleftrightarrow> lr_status r = ''pending'')
        \<and> (is_success (fst (leave_request_reject table a pk post now t))
              \<longleftrightarrow> lr_status r = ''pending'')
        \<and> (lr_status r = ''pending'' \<longrightarrow>
             snd (leave_request_approve table a pk now t)
               = lr_update_row
                   (r\<lparr>lr_status := ''approved'', lr_approved_by := Some (user_pk a),
                      lr_approval_date := Some now, lr_updated_at := t\<rparr>) table
             \<and> snd (leave_request_reject table a pk post now t)
               = lr_update_row
                   (r\<lparr>lr_status := ''rejected'', lr_approved_by := Some (user_pk a),
                      lr_approval_date := Some now,
                      lr_rejection_reason := (case post of None \<Rightarrow> [] | Some x \<Rightarrow> x),
                      lr_updated_at := t\<rparr>) table)
        \<and> (lr_status r \<noteq> ''pending'' \<longrightarrow>
             leave_request_approve table a pk now t
               = (Redirect_to_list (Flash_error ''Only pending requests can be approved.''),
                  table)
             \<and> leave_request_reject table a pk post now t
               = (Redirect_to_list (Flash_error ''Only pending requests can be rejected.''),
                  table)))
   \<and> (find (\<lambda>x. lr_pk x = pk) table = None \<longrightarrow>
        leave_request_approve table a pk now t = (Http404, table)
        \<and> leave_request_reject table a pk post now t = (Http404, table))"
  by (simp add: approve_def reject_def leave_request_approve_def leave_request_reject_def
        lr_save_def Let_def)

theorem approve_reject_only_from_pending_witness:
  "is_authenticated carol
   \<and> get_object (\<lambda>q. q) [leave_jan, leave_feb] carol 5 = Some leave_jan
   \<and> lr_status leave_jan = ''pending''
   \<and> is_ok (fst (approve (\<lambda>q. q) [leave_jan, leave_feb] carol 5 20 21))
   \<and> map lr_status (snd (approve (\<lambda>q. q) [leave_jan, leave_feb] carol 5 20 21))
       = [''approved'', ''pending'']
   \<and> map lr_approved_by (snd (approve (\<lambda>q. q) [leave_jan, leave_feb] carol 5 20 21))
       = [Some 8, None]
   \<and> map lr_rejection_reason
        (snd (reject (\<lambda>q. q) [leave_jan, leave_feb] carol 5 (Json_string ''busy'') 20 21))
       = [''busy'', []]
   \<and> get_object (\<lambda>q. q) [leave_approved, leave_feb] carol 5 = Some leave_approved
   \<and> lr_status leave_approved \<noteq> ''pending''
   \<and> approve (\<lambda>q. q) [leave_approved, leave_feb] carol 5 30 31
       = (Response_400 ''Only pending requests can be approved'', [leave_approved, leave_feb])
   \<and> get_object (\<lambda>q. q) [leave_jan, leave_feb] carol 6 = None
   \<and> approve (\<lambda>q. q) [leave_jan, leave_feb] carol 6 20 21
       = (Response_404, [leave_jan, leave_feb])
   \<and> find (\<lambda>x. lr_pk x = 6) [leave_jan, leave_feb] = Some leave_feb
   \<and> is_success (fst (leave_request_approve [leave_jan, leave_feb] carol 6 20 21))"
  using approve_reject_only_from_pending [where a = carol and fq = "\<lambda>q. q"
      and table = "[leave_jan, leave_feb]" and pk = 5 and r = leave_jan and now = 20 and t = 21
      and why = "''busy''"]
    approve_reject_only_from_pending [where a = carol and fq = "\<lambda>q. q"
      and table = "[leave_approved, leave_feb]" and pk = 5 and r = leave_approved
      and now = 30 and t = 31]
    approve_reject_only_from_pending [where a = carol and fq = "\<lambda>q. q"
      and table = "[leave_jan, leave_feb]" and pk = 6 and r = leave_feb and now = 20 and t = 21]
  by (simp add: get_object_def get_queryset_def lr_update_row_def
        leave_jan_def leave_feb_def leave_approved_def carol_def)

section \<open>Visibility of leave requests\<close>

text \<open>
  C2 fails on the code: the list is scoped by whether the actor has an employee profile
  and reads no role. An actor without the elevated role and without a profile is shown
  another employee's request, and a staff member of the group \<open>HR\<close> who has a profile is
  not shown it.
\<close>

theorem get_queryset_ignores_role:
  "\<not> IsHROrReadOnly_has_permission ''POST'' alice
   \<and> get_queryset [leave_jan] alice = [leave_jan]
   \<and> employee_profile alice \<noteq> Some (lr_employee leave_jan)
   \<and> IsHROrReadOnly_has_permission ''POST'' hr_bob
   \<and> get_queryset [leave_jan] hr_bob = []"
  by (simp add: IsHROrReadOnly_has_permission_def SAFE_METHODS_def get_queryset_def
        alice_def hr_bob_def leave_jan_def)

text \<open>What the list is scoped by: the profile of the actor, and nothing else of the actor.\<close>

lemma get_queryset_by_profile:
  "(employee_profile u = Some e \<longrightarrow>
      get_queryset queryset u = filter (\<lambda>r. lr_employee r = e) queryset)
   \<and> (employee_profile u = None \<longrightarrow> get_queryset queryset u = queryset)
   \<and> get_queryset queryset (u\<lparr>is_staff := staff, groups := gs\<rparr>) = get_queryset queryset u"
  by (auto simp add: get_queryset_def split: option.splits)

section \<open>Termination of an employee\<close>

text \<open>
  C8 fails on the code when the request carries \<open>date_left\<close>: for EMP001, joined on
  2022-01-01, with \<open>date_left\<close> "2024-06-01" and the reason "resignation", the row is
  written as the claim says (status \<open>terminated\<close>, the date, the notes with the reason
  appended), but the attribute in memory is still the string, \<open>years_of_service\<close>
  subtracts a date from it, and the call ends in \<open>TypeError\<close> in place of a response.
\<close>

theorem terminate_with_date_left_raises:
  "parse_2024_06_01 ''2024-06-01'' = Some (ymd2ord 2024 6 1)
   \<and> terminate parse_2024_06_01 str_date emp001 (Json_string ''2024-06-01'')
        (Json_string ''resignation'') today
     = (Response_500 ''TypeError'',
        emp001\<lparr>emp_status := ''terminated'',
               emp_date_left := Some (ymd2ord 2024 6 1),
               emp_notes := ''hired'' @ [CHR 0x0A, CHR 0x0A] @ ''Termination Date: 2024-06-01''
                              @ [CHR 0x0A] @ ''Reason: resignation''\<rparr>)"
  by (simp add: terminate_def Let_def parse_2024_06_01_def emp001_def)

text \<open>
  The same for every employee and every date text that parses: the row is as C8 says,
  whatever the status was, and the call raises. Without \<open>date_left\<close> in the request the
  call succeeds, with today's date.
\<close>

lemma terminate_given_date_text:
  assumes "parse_date text = Some d" and "text \<noteq> []"
  shows "terminate parse_date str_date e (Json_string text) (Json_string reason) today
           = (Response_500 ''TypeError'',
              e\<lparr>emp_status := ''terminated'', emp_date_left := Some d,
                emp_notes := emp_notes e @ [CHR 0x0A, CHR 0x0A] @ ''Termination Date: '' @ text
                               @ [CHR 0x0A] @ ''Reason: '' @ reason\<rparr>)"
  using assms by (simp add: terminate_def Let_def)

lemma terminate_without_date_left:
  "terminate parse_date str_date e Missing (Json_string reason) today
     = (Response_200
          (e\<lparr>emp_status := ''terminated'', emp_date_left := Some today,
             emp_notes := emp_notes e @ [CHR 0x0A, CHR 0x0A] @ ''Termination Date: ''
                            @ str_date today @ [CHR 0x0A] @ ''Reason: '' @ reason\<rparr>),
        e\<lparr>emp_status := ''terminated'', emp_date_left := Some today,
          emp_notes := emp_notes e @ [CHR 0x0A, CHR 0x0A] @ ''Termination Date: ''
                         @ str_date today @ [CHR 0x0A] @ ''Reason: '' @ reason\<rparr>)"
  by (simp add: terminate_def Let_def)

section \<open>Validation of an employee record\<close>

lemmas ymd2ord_simps = ymd2ord_def days_before_year_def days_before_month_def is_leap_def




text \<open>
  C6 fails on the code at a salary of zero and at a bound of zero: a salary of 0.00 for a
  position whose minimum is 1000.00 is accepted, and so is a salary of -5.00 for a
  position whose minimum is 0.00.
\<close>

theorem validate_skips_zero_salary:
  "d_salary zero_salary = Some 0
   \<and> map_option min_salary (d_position zero_salary) = Some (Some 100000)
   \<and> EmployeeCreateUpdateSerializer_validate zero_salary None = Inr zero_salary
   \<and> d_salary negative_salary = Some (- 500)
   \<and> map_option min_salary (d_position negative_salary) = Some (Some 0)
   \<and> EmployeeCreateUpdateSerializer_validate negative_salary None = Inr negative_salary"
  by (simp add: EmployeeCreateUpdateSerializer_validate_def zero_salary_def
        negative_salary_def engineer_def)

text \<open>
  Away from zero the salary rule is as C6 says: with the date rule passed, a nonzero
  salary and a position whose bounds are absent or nonzero, validation fails exactly when
  the salary is below the minimum or above the maximum.
\<close>

lemma salary_bounds_checked_when_nonzero:
  assumes "EmployeeForm_clean data = Inr data"
    and "d_salary data = Some s" and "s \<noteq> 0"
    and "d_position data = Some p"
    and "min_salary p \<noteq> Some 0" and "max_salary p \<noteq> Some 0"
  shows "isl (EmployeeCreateUpdateSerializer_validate data inst)
           \<longleftrightarrow> (\<exists>mn. min_salary p = Some mn \<and> s < mn) \<or> (\<exists>mx. max_salary p = Some mx \<and> mx < s)"
  using assms
  by (auto simp add: EmployeeCreateUpdateSerializer_validate_def EmployeeForm_clean_def Let_def
        split: option.splits if_splits)

text \<open>
  C7 fails on the code for an edit that carries \<open>date_left\<close> and not \<open>date_joined\<close>: the
  date rule reads both dates from the data alone, so for the employee EMP001, joined on
  2022-01-01, a partial update with \<open>date_left\<close> 2021-01-01 passes validation, and the
  record is saved with \<open>date_left\<close> before \<open>date_joined\<close>. The salary rule, a few lines
  below, does fall back to the stored position of the instance.
\<close>

theorem validate_ignores_stored_date_joined:
  "emp_date_joined emp001 = ymd2ord 2022 1 1
   \<and> d_date_joined date_left_patch = None
   \<and> d_date_left date_left_patch = Some (ymd2ord 2021 1 1)
   \<and> ymd2ord 2021 1 1 < ymd2ord 2022 1 1
   \<and> EmployeeCreateUpdateSerializer_validate date_left_patch (Some emp001) = Inr date_left_patch
   \<and> EmployeeCreateUpdateSerializer_run_validation [emp001] (Some emp001) date_left_patch
       = Inr date_left_patch"
  by (simp add: EmployeeCreateUpdateSerializer_validate_def
        EmployeeCreateUpdateSerializer_run_validation_def date_left_patch_def emp001_def
        ymd2ord_simps)

text \<open>
  When both dates are in the data, the rule is as C7 says: the serializer raises the date
  error exactly when \<open>date_left < date_joined\<close>, and the form's \<open>clean\<close> fails exactly
  then.
\<close>

lemma date_rule_on_given_dates:
  "d_date_joined data = Some dj \<and> d_date_left data = Some dl \<longrightarrow>
      (EmployeeCreateUpdateSerializer_validate data inst = Inl [Date_left_before_date_joined]
         \<longleftrightarrow> dl < dj)
      \<and> (isl (EmployeeForm_clean data) \<longleftrightarrow> dl < dj)
      \<and> (EmployeeForm_clean data = Inl [Date_left_before_date_joined] \<longleftrightarrow> dl < dj)"
  by (auto simp add: EmployeeCreateUpdateSerializer_validate_def EmployeeForm_clean_def Let_def
        split: option.splits if_splits)

section \<open>Validation of an attendance record\<close>

text \<open>
  C9 fails on the code at the form: with both times given and the check-out before the
  check-in, the serializer rejects the record and \<open>AttendanceForm\<close> accepts it.
\<close>

theorem attendance_form_accepts_early_check_out:
  "a_check_in early_check_out = Some 61200000000
   \<and> a_check_out early_check_out = Some 32400000000
   \<and> AttendanceSerializer_validate early_check_out = Inl [Check_out_before_check_in]
   \<and> AttendanceForm_clean early_check_out = Inr early_check_out"
  by (simp add: AttendanceSerializer_validate_def AttendanceForm_clean_def early_check_out_def)

text \<open>On the serializer the rule is as C9 says.\<close>

lemma attendance_serializer_rejects_early_check_out:
  "a_check_in data = Some ci \<Longrightarrow> a_check_out data = Some co \<Longrightarrow>
     isl (AttendanceSerializer_validate data) \<longleftrightarrow> co < ci"
  by (simp add: AttendanceSerializer_validate_def)

section \<open>Attendance upsert\<close>


lemma filter_distinct_key:
  "distinct (map f xs) \<Longrightarrow> filter (\<lambda>x. f x = k) xs = [] \<or> (\<exists>a. filter (\<lambda>x. f x = k) xs = [a])"
proof (induction xs)
  case Nil
  then show ?case by simp
next
  case (Cons x xs)
  show ?case
  proof (cases "f x = k")
    case True
    with Cons.prems have "k \<notin> f ` set xs" by simp
    then have "\<forall>y\<in>set xs. f y \<noteq> k" by blast
    then have "filter (\<lambda>x. f x = k) xs = []" by (simp add: filter_empty_conv)
    with True show ?thesis by simp
  next
    case False
    with Cons show ?thesis by simp
  qed
qed

lemma unique_together_filter:
  assumes "unique_together table"
  shows "filter (\<lambda>a. att_employee a = e \<and> att_date a = d) table = []
         \<or> (\<exists>a. filter (\<lambda>a. att_employee a = e \<and> att_date a = d) table = [a])"
  using filter_distinct_key [of "\<lambda>a. (att_employee a, att_date a)" table "(e, d)"] assms
  unfolding unique_together_def by simp

lemma filter_singletonD:
  "filter P xs = [a] \<Longrightarrow> P a \<and> a \<in> set xs"
proof -
  assume "filter P xs = [a]"
  then have "a \<in> set (filter P xs)" by simp
  then show ?thesis by simp
qed

lemma update_or_create_unique:
  assumes "unique_together table"
    and "update_or_create table employees e d s = Inr (a, table')"
  shows "unique_together table'"
proof -
  let ?P = "\<lambda>a. att_employee a = e \<and> att_date a = d"
  from unique_together_filter [OF assms(1), of e d]
  consider "filter ?P table = []" | a0 where "filter ?P table = [a0]" by blast
  then show ?thesis
  proof cases
    case 1
    then have "\<forall>x\<in>set table. \<not> ?P x" by (simp add: filter_empty_conv)
    then have "(e, d) \<notin> set (map (\<lambda>a. (att_employee a, att_date a)) table)" by auto
    with 1 assms show ?thesis
      by (auto simp add: update_or_create_def unique_together_def Let_def split: if_splits)
  next
    case 2
    have "map (\<lambda>a. (att_employee a, att_date a))
            (map (\<lambda>x. if ?P x then x\<lparr>att_status := s\<rparr> else x) table)
          = map (\<lambda>a. (att_employee a, att_date a)) table"
      by (simp add: comp_def if_distrib cong: if_cong)
    with 2 assms show ?thesis
      by (simp add: update_or_create_def unique_together_def)
  qed
qed

lemma update_or_create_ok:
  assumes "unique_together table" and "e \<in> set employees"
  shows "\<exists>a table'. update_or_create table employees e d s = Inr (a, table')
           \<and> filter (\<lambda>x. att_employee x = e \<and> att_date x = d) table' = [a]
           \<and> att_status a = s"
proof -
  let ?P = "\<lambda>a. att_employee a = e \<and> att_date a = d"
  let ?f = "\<lambda>x. if ?P x then x\<lparr>att_status := s\<rparr> else x"
  from unique_together_filter [OF assms(1), of e d]
  consider "filter ?P table = []" | a0 where "filter ?P table = [a0]" by blast
  then show ?thesis
  proof cases
    case 1
    with assms(2) show ?thesis
      by (simp add: update_or_create_def Let_def)
  next
    case 2
    have "?P a0" using filter_singletonD [OF 2] by simp
    have "filter ?P (map ?f table) = map ?f (filter (?P \<circ> ?f) table)"
      by (rule filter_map)
    also have "?P \<circ> ?f = ?P" by (auto simp add: fun_eq_iff)
    finally have "filter ?P (map ?f table) = [a0\<lparr>att_status := s\<rparr>]"
      using 2 \<open>?P a0\<close> by simp
    with 2 show ?thesis
      by (simp add: update_or_create_def)
  qed
qed

lemma update_or_create_keeps_marked:
  assumes "update_or_create table employees e' d s = Inr (a', table')"
    and "unique_together table"
    and "filter (\<lambda>x. att_employee x = e \<and> att_date x = d) table = [a]"
    and "att_status a = s"
  shows "\<exists>b. filter (\<lambda>x. att_employee x = e \<and> att_date x = d) table' = [b] \<and> att_status b = s"
proof -
  let ?P = "\<lambda>a. att_employee a = e \<and> att_date a = d"
  let ?Q = "\<lambda>a. att_employee a = e' \<and> att_date a = d"
  let ?f = "\<lambda>x. if ?Q x then x\<lparr>att_status := s\<rparr> else x"
  from unique_together_filter [OF assms(2), of e' d]
  consider "filter ?Q table = []" | a0 where "filter ?Q table = [a0]" by blast
  then show ?thesis
  proof cases
    case 1
    then have "e' \<noteq> e" using assms(3) by auto
    with 1 assms show ?thesis
      by (auto simp add: update_or_create_def Let_def split: if_splits)
  next
    case 2
    then have t': "table' = map ?f table"
      using assms(1) by (simp add: update_or_create_def)
    have "filter ?P (map ?f table) = map ?f (filter (?P \<circ> ?f) table)"
      by (rule filter_map)
    also have "?P \<circ> ?f = ?P" by (auto simp add: fun_eq_iff)
    finally have "filter ?P table' = [?f a]" using assms(3) t' by simp
    moreover have "att_status (?f a) = s" using assms(4) by simp
    ultimately show ?thesis by blast
  qed
qed

lemma update_or_create_others:
  assumes "update_or_create table employees e d s = Inr (a, table')"
    and "att_employee x \<noteq> e"
  shows "x \<in> set table' \<longleftrightarrow> x \<in> set table"
proof (cases "filter (\<lambda>a. att_employee a = e \<and> att_date a = d) table")
  case Nil
  with assms show ?thesis
    by (auto simp add: update_or_create_def Let_def split: if_splits)
next
  case (Cons a0 rest)
  with assms(1) have t': "table' = map (\<lambda>x. if att_employee x = e \<and> att_date x = d
                         then x\<lparr>att_status := s\<rparr> else x) table"
    by (cases rest) (simp_all add: update_or_create_def)
  show ?thesis unfolding t' using assms(2) by (auto simp add: image_iff)
qed

lemma update_or_create_unresolved:
  assumes "e \<notin> set employees" and "\<forall>a\<in>set table. att_employee a \<noteq> e"
  shows "update_or_create table employees e d s = Inl IntegrityError"
proof -
  from assms(2) have "filter (\<lambda>a. att_employee a = e \<and> att_date a = d) table = []"
    by (simp add: filter_empty_conv)
  with assms(1) show ?thesis by (simp add: update_or_create_def)
qed

lemma bulk_mark_loop_unique:
  "unique_together table \<Longrightarrow> unique_together (snd (bulk_mark_loop table employees d s ids acc))"
proof (induction ids arbitrary: table acc)
  case Nil
  then show ?case by simp
next
  case (Cons e ids)
  show ?case
  proof (cases "update_or_create table employees e d s")
    case (Inl err)
    with Cons.prems show ?thesis by simp
  next
    case (Inr p)
    obtain a table' where p: "p = (a, table')" by (cases p)
    with Inr Cons.prems have "unique_together table'"
      using update_or_create_unique by blast
    from Cons.IH [OF this] Inr p show ?thesis by simp
  qed
qed

lemma bulk_mark_unique:
  "unique_together table \<Longrightarrow> unique_together (snd (bulk_mark table employees request))"
proof -
  assume u: "unique_together table"
  show ?thesis
  proof (cases "bm_date request")
    case None
    with u show ?thesis by (simp add: bulk_mark_def)
  next
    case (Some d)
    let ?s = "case bm_status request of None \<Rightarrow> ''present'' | Some s \<Rightarrow> s"
    let ?r = "bulk_mark_loop table employees d ?s (bm_employee_ids request) []"
    have "snd (bulk_mark table employees request)
            = (if bm_employee_ids request = [] then table else snd ?r)"
      using Some by (simp add: bulk_mark_def split: prod.splits sum.splits)
    with u bulk_mark_loop_unique [OF u, of employees d ?s "bm_employee_ids request" "[]"]
    show ?thesis by simp
  qed
qed

lemma bulk_marks_unique:
  "unique_together table \<Longrightarrow> unique_together (bulk_marks table employees requests)"
  by (induction requests arbitrary: table) (simp_all add: bulk_mark_unique)

lemma bulk_mark_loop_ok:
  assumes "unique_together table" and "set ids \<subseteq> set employees"
  shows "\<exists>recs table'. bulk_mark_loop table employees d s ids acc = (Inr recs, table')
          \<and> length recs = length acc + length ids
          \<and> (\<forall>x. att_employee x \<notin> set ids \<longrightarrow> (x \<in> set table' \<longleftrightarrow> x \<in> set table))
          \<and> (\<forall>e a. filter (\<lambda>x. att_employee x = e \<and> att_date x = d) table = [a] \<and> att_status a = s
                \<longrightarrow> (\<exists>b. filter (\<lambda>x. att_employee x = e \<and> att_date x = d) table' = [b] \<and> att_status b = s))
          \<and> (\<forall>e\<in>set ids. \<exists>b. filter (\<lambda>x. att_employee x = e \<and> att_date x = d) table' = [b]
                \<and> att_status b = s)"
  using assms
proof (induction ids arbitrary: table acc)
  case Nil
  then show ?case by simp
next
  case (Cons e ids)
  from Cons.prems have e: "e \<in> set employees" and ids: "set ids \<subseteq> set employees" by auto
  from update_or_create_ok [OF Cons.prems(1) e, of d s]
  obtain a t1 where uoc: "update_or_create table employees e d s = Inr (a, t1)"
    and one: "filter (\<lambda>x. att_employee x = e \<and> att_date x = d) t1 = [a]"
    and st: "att_status a = s" by blast
  have u1: "unique_together t1" using update_or_create_unique [OF Cons.prems(1) uoc] .
  from Cons.IH [OF u1 ids, of "acc @ [a]"]
  obtain recs t2 where loop: "bulk_mark_loop t1 employees d s ids (acc @ [a]) = (Inr recs, t2)"
    and len: "length recs = length (acc @ [a]) + length ids"
    and others: "\<forall>x. att_employee x \<notin> set ids \<longrightarrow> (x \<in> set t2 \<longleftrightarrow> x \<in> set t1)"
    and keep: "\<forall>e a. filter (\<lambda>x. att_employee x = e \<and> att_date x = d) t1 = [a] \<and> att_status a = s
                \<longrightarrow> (\<exists>b. filter (\<lambda>x. att_employee x = e \<and> att_date x = d) t2 = [b] \<and> att_status b = s)"
    and marked: "\<forall>e\<in>set ids. \<exists>b. filter (\<lambda>x. att_employee x = e \<and> att_date x = d) t2 = [b]
                \<and> att_status b = s"
    by blast
  have r: "bulk_mark_loop table employees d s (e # ids) acc = (Inr recs, t2)"
    using uoc loop by simp
  have c1: "length recs = length acc + length (e # ids)" using len by simp
  have c2: "\<forall>x. att_employee x \<notin> set (e # ids) \<longrightarrow> (x \<in> set t2 \<longleftrightarrow> x \<in> set table)"
    using others update_or_create_others [OF uoc] by auto
  have c3: "\<forall>e' a'. filter (\<lambda>x. att_employee x = e' \<and> att_date x = d) table = [a'] \<and> att_status a' = s
                \<longrightarrow> (\<exists>b. filter (\<lambda>x. att_employee x = e' \<and> att_date x = d) t2 = [b] \<and> att_status b = s)"
    using keep update_or_create_keeps_marked [OF uoc Cons.prems(1)] by blast
  have c4: "\<forall>e'\<in>set (e # ids). \<exists>b. filter (\<lambda>x. att_employee x = e' \<and> att_date x = d) t2 = [b]
                \<and> att_status b = s"
    using marked keep one st by auto
  from r c1 c2 c3 c4 show ?case by blast
qed

lemma bulk_mark_loop_append:
  "bulk_mark_loop table employees d s (pre @ rest) acc
     = (case bulk_mark_loop table employees d s pre acc of
          (Inl err, t) \<Rightarrow> (Inl err, t)
        | (Inr recs, t) \<Rightarrow> bulk_mark_loop t employees d s rest recs)"
  by (induction pre arbitrary: table acc) (auto split: sum.splits prod.splits)


lemma bulk_mark_single:
  assumes "update_or_create table employees e d s = Inr (a, table')"
  shows "bulk_mark table employees \<lparr>bm_date = Some d, bm_employee_ids = [e], bm_status = Some s\<rparr>
           = (Created [a], table')"
  using assms by (simp add: bulk_mark_def)

text \<open>
  C4. On a table that satisfies the uniqueness constraint, marking a stored employee \<open>e\<close>
  for the date \<open>d\<close> with status \<open>s1\<close> and then with status \<open>s2\<close> succeeds both times
  and leaves exactly one row for \<open>(e, d)\<close>, whose status is \<open>s2\<close>. Any sequence of
  \<open>bulk_mark\<close> calls keeps the constraint, so starting from the empty table no sequence
  of calls yields two rows for one employee and date.
\<close>

theorem attendance_upsert_last_write_wins:
  "(unique_together table \<and> e \<in> set employees \<longrightarrow>
     (\<exists>a1 t1 a2 t2.
        bulk_mark table employees
          \<lparr>bm_date = Some d, bm_employee_ids = [e], bm_status = Some s1\<rparr> = (Created [a1], t1)
      \<and> bulk_mark t1 employees
          \<lparr>bm_date = Some d, bm_employee_ids = [e], bm_status = Some s2\<rparr> = (Created [a2], t2)
      \<and> filter (\<lambda>x. att_employee x = e \<and> att_date x = d) t2 = [a2]
      \<and> att_status a2 = s2
      \<and> unique_together t2))
   \<and> (unique_together table \<longrightarrow> unique_together (bulk_marks table employees requests))
   \<and> unique_together (bulk_marks [] employees requests)"
proof (intro conjI impI)
  assume h: "unique_together table \<and> e \<in> set employees"
  then have u: "unique_together table" and e: "e \<in> set employees" by simp_all
  from update_or_create_ok [OF u e, of d s1]
  obtain a1 t1 where uoc1: "update_or_create table employees e d s1 = Inr (a1, t1)" by blast
  have u1: "unique_together t1" using update_or_create_unique [OF u uoc1] .
  from update_or_create_ok [OF u1 e, of d s2]
  obtain a2 t2 where uoc2: "update_or_create t1 employees e d s2 = Inr (a2, t2)"
    and one: "filter (\<lambda>x. att_employee x = e \<and> att_date x = d) t2 = [a2]"
    and st: "att_status a2 = s2" by blast
  have u2: "unique_together t2" using update_or_create_unique [OF u1 uoc2] .
  from bulk_mark_single [OF uoc1] bulk_mark_single [OF uoc2] one st u2
  show "\<exists>a1 t1 a2 t2.
        bulk_mark table employees
          \<lparr>bm_date = Some d, bm_employee_ids = [e], bm_status = Some s1\<rparr> = (Created [a1], t1)
      \<and> bulk_mark t1 employees
          \<lparr>bm_date = Some d, bm_employee_ids = [e], bm_status = Some s2\<rparr> = (Created [a2], t2)
      \<and> filter (\<lambda>x. att_employee x = e \<and> att_date x = d) t2 = [a2]
      \<and> att_status a2 = s2
      \<and> unique_together t2"
    by blast
next
  assume "unique_together table"
  then show "unique_together (bulk_marks table employees requests)"
    by (rule bulk_marks_unique)
next
  show "unique_together (bulk_marks [] employees requests)"
    by (rule bulk_marks_unique) (simp add: unique_together_def)
qed

theorem attendance_upsert_last_write_wins_witness:
  "unique_together [] \<and> 1 \<in> set [1::nat]
   \<and> map att_status
       (bulk_marks [] [1]
          [\<lparr>bm_date = Some (ymd2ord 2024 1 1), bm_employee_ids = [1], bm_status = Some ''present''\<rparr>,
           \<lparr>bm_date = Some (ymd2ord 2024 1 1), bm_employee_ids = [1], bm_status = Some ''absent''\<rparr>])
       = [''absent'']"
  using attendance_upsert_last_write_wins [where table = "[]" and e = 1 and employees = "[1]"
      and d = "ymd2ord 2024 1 1" and ?s1.0 = "''present''" and ?s2.0 = "''absent''"
      and requests = "[]"]
  by (simp add: unique_together_def bulk_mark_def update_or_create_def Let_def)

text \<open>
  C5, as stated, fails: in a batch whose first identifier does not resolve and whose second
  one does, the call raises at the first and the second employee is not marked.
\<close>

theorem bulk_mark_isolates_failures_counterexample:
  "99 \<notin> set [1::nat] \<and> 1 \<in> set [1::nat]
   \<and> bulk_mark [] [1]
        \<lparr>bm_date = Some (ymd2ord 2024 1 1), bm_employee_ids = [99, 1],
         bm_status = Some ''present''\<rparr>
       = (Raised IntegrityError, [])"
  by (simp add: bulk_mark_def update_or_create_def Let_def)

text \<open>
  C5, amended. On a table that satisfies the uniqueness constraint and whose rows all
  belong to stored employees, a batch whose identifiers resolve up to some identifier
  that does not is aborted at that identifier: the call fails with the integrity error;
  the table is the one that the batch of the earlier identifiers alone leaves, with one
  row of the given status for each of them; and every row of an employee that is not
  among the earlier identifiers is as before the call, so the identifiers after the bad
  one are not marked.
\<close>

theorem bulk_mark_aborts_at_first_bad_id:
  "unique_together table \<and> (\<forall>a\<in>set table. att_employee a \<in> set employees)
     \<and> set before \<subseteq> set employees \<and> bad \<notin> set employees \<longrightarrow>
   fst (bulk_mark table employees
          \<lparr>bm_date = Some d, bm_employee_ids = before @ bad # after, bm_status = Some s\<rparr>)
     = Raised IntegrityError
   \<and> snd (bulk_mark table employees
          \<lparr>bm_date = Some d, bm_employee_ids = before @ bad # after, bm_status = Some s\<rparr>)
     = snd (bulk_mark_loop table employees d s before [])
   \<and> (\<forall>e\<in>set before. \<exists>b.
        filter (\<lambda>x. att_employee x = e \<and> att_date x = d)
          (snd (bulk_mark table employees
             \<lparr>bm_date = Some d, bm_employee_ids = before @ bad # after, bm_status = Some s\<rparr>)) = [b]
        \<and> att_status b = s)
   \<and> (\<forall>x. att_employee x \<notin> set before \<longrightarrow>
        (x \<in> set (snd (bulk_mark table employees
             \<lparr>bm_date = Some d, bm_employee_ids = before @ bad # after, bm_status = Some s\<rparr>))
         \<longleftrightarrow> x \<in> set table))"
proof
  assume h: "unique_together table \<and> (\<forall>a\<in>set table. att_employee a \<in> set employees)
     \<and> set before \<subseteq> set employees \<and> bad \<notin> set employees"
  then have u: "unique_together table" and fk: "\<forall>a\<in>set table. att_employee a \<in> set employees"
    and pre: "set before \<subseteq> set employees" and bad: "bad \<notin> set employees" by simp_all
  let ?req = "\<lparr>bm_date = Some d, bm_employee_ids = before @ bad # after, bm_status = Some s\<rparr>"
  from bulk_mark_loop_ok [OF u pre, of d s "[]"]
  obtain recs t1 where loop: "bulk_mark_loop table employees d s before [] = (Inr recs, t1)"
    and others: "\<forall>x. att_employee x \<notin> set before \<longrightarrow> (x \<in> set t1 \<longleftrightarrow> x \<in> set table)"
    and marked: "\<forall>e\<in>set before. \<exists>b. filter (\<lambda>x. att_employee x = e \<and> att_date x = d) t1 = [b]
                \<and> att_status b = s"
    by blast
  have "bad \<notin> set before" using pre bad by blast
  then have "\<forall>a\<in>set t1. att_employee a \<noteq> bad" using others fk bad by blast
  from update_or_create_unresolved [OF bad this]
  have "update_or_create t1 employees bad d s = Inl IntegrityError" .
  then have "bulk_mark_loop table employees d s (before @ bad # after) []
               = (Inl IntegrityError, t1)"
    using loop by (simp add: bulk_mark_loop_append)
  then have r: "bulk_mark table employees ?req = (Raised IntegrityError, t1)"
    by (simp add: bulk_mark_def)
  show "fst (bulk_mark table employees ?req) = Raised IntegrityError
   \<and> snd (bulk_mark table employees ?req) = snd (bulk_mark_loop table employees d s before [])
   \<and> (\<forall>e\<in>set before. \<exists>b.
        filter (\<lambda>x. att_employee x = e \<and> att_date x = d)
          (snd (bulk_mark table employees ?req)) = [b] \<and> att_status b = s)
   \<and> (\<forall>x. att_employee x \<notin> set before \<longrightarrow>
        (x \<in> set (snd (bulk_mark table employees ?req)) \<longleftrightarrow> x \<in> set table))"
    unfolding r using loop others marked by simp
qed

theorem bulk_mark_aborts_at_first_bad_id_witness:
  "unique_together [] \<and> set [1] \<subseteq> set [1, 2::nat] \<and> 99 \<notin> set [1, 2::nat]
   \<and> fst (bulk_mark [] [1, 2]
        \<lparr>bm_date = Some (ymd2ord 2024 1 1), bm_employee_ids = [1, 99, 2],
         bm_status = Some ''present''\<rparr>) = Raised IntegrityError
   \<and> map att_employee (snd (bulk_mark [] [1, 2]
        \<lparr>bm_date = Some (ymd2ord 2024 1 1), bm_employee_ids = [1, 99, 2],
         bm_status = Some ''present''\<rparr>)) = [1]"
  using bulk_mark_aborts_at_first_bad_id [where table = "[]" and employees = "[1, 2]"
      and before = "[1]" and bad = 99 and after = "[2]" and d = "ymd2ord 2024 1 1"
      and s = "''present''"]
  by (simp add: unique_together_def bulk_mark_def update_or_create_def Let_def)

end
